theory Spec2Isabelle
  imports Main
begin

section \<open>Panel database module (phoenix-panel/js/database.js)\<close>

subsection \<open>Stored data\<close>

text \<open>
  A value stored under \<open>allowedUsers/UID\<close>. The documented shape is the boolean
  \<open>true\<close>, but the store holds any JSON leaf, and the two readers of the module test it
  differently (\<open>fetchUserServers\<close> by JavaScript truthiness, \<open>checkServerAccess\<close> by
  \<open>=== true\<close>), so the other leaves are kept.
\<close>

datatype grant = GBool bool | GNum int | GStr string | GObj

fun truthy :: "grant \<Rightarrow> bool" where
  "truthy (GBool b) = b"
| "truthy (GNum n) = (n \<noteq> 0)"
| "truthy (GStr s) = (s \<noteq> [])"
| "truthy GObj = True"

record user =
  uid :: string
  email :: "string option"

record server_status =
  state :: string
  lastUpdated :: int
  message :: string

text \<open>A record under \<open>servers/KEY\<close>; \<open>allowedUsers = None\<close> is a record without that child.\<close>

record server =
  s_id :: string
  name :: string
  allowedUsers :: "(string \<rightharpoonup> grant) option"
  status :: server_status

text \<open>The record written by \<open>sendCommand\<close> (lines 211-219).\<close>

record command =
  c_id :: string
  c_serverId :: string
  c_action :: string
  c_requestedBy :: string
  c_requestedByEmail :: "string option"
  c_requestedAt :: int
  c_status :: string

text \<open>The record under \<open>agent/status\<close>; an absent field reads as \<open>undefined\<close>.\<close>

record presence =
  p_online :: bool
  p_lastHeartbeat :: "int option"
  p_version :: "string option"
  p_hostname :: "string option"

text \<open>
  The remote store. The children of \<open>servers\<close> are kept as the list \<open>snapshot.forEach\<close>
  walks through; \<open>commands\<close> is only ever looked up and updated at one key.
\<close>

record store =
  servers :: "(string \<times> server) list"
  commands :: "string \<rightharpoonup> command"
  agent_status :: "presence option"

text \<open>
  What the module reads from outside itself: \<open>isConfigValid\<close> of firebase-config.js
  and whether the initialisation there throws, \<open>getCurrentUser()\<close> of auth.js,
  \<open>Date.now()\<close>, the key \<open>push\<close> hands out, whether a \<open>get\<close> is rejected, and whether
  a \<open>set\<close> fails for a reason other than the store's access rule, such as a lost
  connection (a rejected promise is \<open>True\<close>).
\<close>

record env =
  isConfigValid :: bool
  initThrows :: bool
  currentUser :: "user option"
  now :: int
  pushKey :: string
  getThrows :: bool
  setThrows :: bool

text \<open>
  The \<open>database\<close> handle of firebase-config.js, \<open>True\<close> when it is not \<open>null\<close>: it is
  assigned only under \<open>if (isConfigValid)\<close>, as the last step of a \<open>try\<close> block.
\<close>

definition database :: "env \<Rightarrow> bool" where
  "database e = (isConfigValid e \<and> \<not> initThrows e)"

subsection \<open>Constants\<close>

definition VALID_ACTIONS :: "string list" where
  "VALID_ACTIONS = [''start'', ''stop'', ''restart'']"

text \<open>\<open>Array.prototype.join\<close> with a separator.\<close>

fun join :: "string \<Rightarrow> string list \<Rightarrow> string" where
  "join sep [] = []"
| "join sep [x] = x"
| "join sep (x # y # ys) = x @ sep @ join sep (y # ys)"

subsection \<open>Server operations\<close>

text \<open>The test of line 84: \<open>server.allowedUsers && server.allowedUsers[user.uid]\<close>.\<close>

definition listed :: "server \<Rightarrow> string \<Rightarrow> bool" where
  "listed s u =
     (case allowedUsers s of
        None \<Rightarrow> False
      | Some au \<Rightarrow> (case au u of None \<Rightarrow> False | Some g \<Rightarrow> truthy g))"

text \<open>The callback of \<open>snapshot.forEach\<close> (lines 79-87), pushing onto \<open>servers\<close>.\<close>

definition visit :: "string \<Rightarrow> server list \<Rightarrow> string \<times> server \<Rightarrow> server list" where
  "visit u acc child =
     (let s = (snd child)\<lparr>s_id := fst child\<rparr>
      in if listed s u then acc @ [s] else acc)"

text \<open>\<open>Inl\<close> carries the message of the \<open>Error\<close> thrown.\<close>

definition fetchUserServers :: "env \<Rightarrow> store \<Rightarrow> string + server list" where
  "fetchUserServers e st =
     (if \<not> isConfigValid e \<or> \<not> database e then Inr []
      else case currentUser e of
        None \<Rightarrow> Inr []
      | Some usr \<Rightarrow>
          if getThrows e then Inl ''Failed to fetch servers. Please try again.''
          else if servers st = [] then Inr []
          else Inr (foldl (visit (uid usr)) [] (servers st)))"

subsection \<open>Command operations\<close>

text \<open>
  Modelled from the spec: the access rule of the store for the creation of a command,
  which database.rules.json holds and which is not among the sources. Section 4.1:
  command creation is permitted iff the caller is present, the target commandId does not
  already exist (no overwrite), the new record is complete, \<open>action\<close> matches the fixed
  enum, and \<open>requestedBy\<close> equals the caller's own identity. A value of the type
  \<open>command\<close> has every field of the record, so completeness needs no test here.
\<close>

definition command_creation_permitted ::
  "user option \<Rightarrow> store \<Rightarrow> string \<Rightarrow> command \<Rightarrow> bool" where
  "command_creation_permitted caller st k c =
     (case caller of
        None \<Rightarrow> False
      | Some usr \<Rightarrow>
          commands st k = None \<and> c_action c \<in> set [''start'', ''stop'', ''restart''] \<and>
          c_requestedBy c = uid usr)"

text \<open>
  Whether the promise of \<open>set(ref, c)\<close> at \<open>commands/KEY\<close> is rejected: the rule denies the
  write, or it fails otherwise.
\<close>

definition set_rejected :: "env \<Rightarrow> store \<Rightarrow> string \<Rightarrow> command \<Rightarrow> bool" where
  "set_rejected e st k c =
     (setThrows e \<or> \<not> command_creation_permitted (currentUser e) st k c)"

text \<open>
  Lines 236-250: the read of \<open>servers/SERVERID/allowedUsers/UID\<close>;
  \<open>snapshot.exists() && snapshot.val() === true\<close>, and \<open>false\<close> when the read throws.
\<close>

definition checkServerAccess :: "env \<Rightarrow> store \<Rightarrow> string \<Rightarrow> bool" where
  "checkServerAccess e st serverId =
     (if \<not> database e then False
      else case currentUser e of
        None \<Rightarrow> False
      | Some usr \<Rightarrow>
          if getThrows e then False
          else (case map_of (servers st) serverId of
                  None \<Rightarrow> False
                | Some s \<Rightarrow>
                    (case allowedUsers s of
                       None \<Rightarrow> False
                     | Some au \<Rightarrow> au (uid usr) = Some (GBool True))))"

text \<open>\<open>set(newCommandRef, command)\<close>: one write of the whole record at \<open>commands/KEY\<close>.\<close>

definition db_set :: "store \<Rightarrow> string \<Rightarrow> command \<Rightarrow> store" where
  "db_set st k c = st\<lparr>commands := (commands st)(k \<mapsto> c)\<rparr>"

text \<open>
  Lines 185-229. The result is what the promise settles with (\<open>Inl\<close> the message of the
  \<open>Error\<close>, \<open>Inr\<close> the command id), the \<open>set\<close> calls issued, in order, and the store
  afterwards. A \<open>set\<close> the store rejects leaves the store as it was.
\<close>

definition sendCommand ::
  "env \<Rightarrow> store \<Rightarrow> string \<Rightarrow> string \<Rightarrow> (string + string) \<times> (string \<times> command) list \<times> store" where
  "sendCommand e st serverId action =
     (if \<not> isConfigValid e \<or> \<not> database e then (Inl ''Database not available'', [], st)
      else case currentUser e of
        None \<Rightarrow> (Inl ''You must be signed in to send commands'', [], st)
      | Some usr \<Rightarrow>
          if action \<notin> set VALID_ACTIONS then
            (Inl (''Invalid action: '' @ action @ ''. Must be one of: '' @ join '', '' VALID_ACTIONS),
             [], st)
          else if \<not> checkServerAccess e st serverId then
            (Inl ''You do not have access to this server'', [], st)
          else
            (let commandId = pushKey e;
                 cmd = \<lparr>c_id = commandId, c_serverId = serverId, c_action = action,
                        c_requestedBy = uid usr, c_requestedByEmail = email usr,
                        c_requestedAt = now e, c_status = ''pending''\<rparr>
             in if set_rejected e st commandId cmd then
                  (Inl ''Failed to send command. Please try again.'', [(commandId, cmd)], st)
                else (Inr commandId, [(commandId, cmd)], db_set st commandId cmd)))"

subsection \<open>Agent status\<close>

record agent_report =
  r_online :: bool
  r_lastHeartbeat :: "int option"
  r_version :: "string option"
  r_hostname :: "string option"
  r_message :: string

text \<open>What \<open>onValue\<close> delivers: a snapshot (\<open>None\<close> when nothing is stored) or an error.\<close>

datatype agent_event = Snapshot "presence option" | ListenError

definition offline_report :: "string \<Rightarrow> agent_report" where
  "offline_report m =
     \<lparr>r_online = False, r_lastHeartbeat = None, r_version = None, r_hostname = None,
      r_message = m\<rparr>"

text \<open>\<open>x || d\<close> on an optional string: the empty string is falsy too.\<close>

definition str_or :: "string option \<Rightarrow> string \<Rightarrow> string" where
  "str_or x d = (case x of None \<Rightarrow> d | Some s \<Rightarrow> if s = [] then d else s)"

text \<open>Lines 326-355: the object handed to \<open>callback\<close>.\<close>

definition subscribeToAgentStatus :: "env \<Rightarrow> agent_event \<Rightarrow> agent_report" where
  "subscribeToAgentStatus e ev =
     (if \<not> isConfigValid e \<or> \<not> database e then offline_report ''Database not connected''
      else case ev of
        ListenError \<Rightarrow> offline_report ''Connection error''
      | Snapshot None \<Rightarrow> offline_report ''Agent not registered''
      | Snapshot (Some st) \<Rightarrow>
          (let lastHeartbeat = (case p_lastHeartbeat st of None \<Rightarrow> 0 | Some h \<Rightarrow> h);
               isOnline = (p_online st \<and> now e - lastHeartbeat < 90000)
           in \<lparr>r_online = isOnline, r_lastHeartbeat = Some lastHeartbeat,
               r_version = Some (str_or (p_version st) ''Unknown''),
               r_hostname = Some (str_or (p_hostname st) ''Unknown''),
               r_message = (if isOnline then ''Agent online'' else ''Agent offline'')\<rparr>))"

section \<open>Process supervisor (backend serverManager module)\<close>

subsection \<open>Process table\<close>

text \<open>
  \<open>processInfo.exitCode\<close>: never assigned (\<open>Undefined\<close>), or what the exit event
  delivered, \<open>null\<close> for a process ended by a signal or its numeric code.
\<close>

datatype exit_code = Undefined | Null | Code int

text \<open>
  The two fields of the \<open>ChildProcess\<close> handle the module reads. The \<open>pid\<close> of a child
  that could not be started is \<open>undefined\<close>, here \<open>None\<close>.
\<close>

record child_process =
  pid :: "int option"
  killed :: bool

record log_entry =
  l_timestamp :: int
  l_type :: string
  l_message :: string

record process_info =
  process :: "child_process option"
  startTime :: int
  logs :: "log_entry list"
  maxLogs :: nat
  exitCode :: exit_code
  exitTime :: "int option"
  error :: "string option"

text \<open>\<open>this.processes\<close>, the map from server id to process info.\<close>

record manager =
  processes :: "int \<rightharpoonup> process_info"

text \<open>
  What Node and the operating system answer: the clock (\<open>new Date()\<close>, \<open>Date.now()\<close>,
  in milliseconds), the pid of the child \<open>spawn\<close> creates (\<open>None\<close> when the executable
  cannot be started: the handle then has no pid, and its error event follows),
  \<open>process.cwd()\<close>, the message of the error \<open>process.kill\<close> throws when the signal
  cannot be delivered, if it throws, and the messages of the two argument checks the
  module can run into: \<open>spawn\<close> throws at once for an empty file name, and \<open>process.kill\<close>
  for a pid that is not a number.
\<close>

record os_env =
  clock :: int
  spawnPid :: "int option"
  cwd :: string
  killThrows :: "string option"
  emptyFile :: string
  invalidPid :: string

subsection \<open>Starting\<close>

text \<open>
  \<open>String.prototype.split\<close> with the separator \<open>' '\<close>: a cut at every single space, so
  two spaces in a row give an empty piece and the empty string gives one empty piece.
\<close>

fun split_space :: "string \<Rightarrow> string list" where
  "split_space [] = [[]]"
| "split_space (c # cs) =
     (if c = CHR '' '' then [] # split_space cs
      else (case split_space cs of
              [] \<Rightarrow> [[c]]
            | p # ps \<Rightarrow> (c # p) # ps))"

text \<open>The arguments of the call of \<open>spawn\<close> (lines 21-25).\<close>

record spawn_call =
  executable :: string
  args :: "string list"
  sp_cwd :: string
  detached :: bool
  stdio :: "string list"

record start_result =
  res_pid :: "int option"
  res_startTime :: int

text \<open>
  Lines 8-70. \<open>workingDirectory = None\<close> is the argument left out, which the default
  parameter replaces by \<open>process.cwd()\<close>. \<open>Inl\<close> is the message of the error thrown, by
  line 12 or by \<open>spawn\<close> itself for an empty executable, before anything is stored;
  otherwise the value returned, the call of \<open>spawn\<close> made, and the manager afterwards.
\<close>

definition startServer ::
  "os_env \<Rightarrow> manager \<Rightarrow> int \<Rightarrow> string \<Rightarrow> string option
     \<Rightarrow> string + (start_result \<times> spawn_call \<times> manager)" where
  "startServer os m serverId command workingDirectory =
     (if (case processes m serverId of
            None \<Rightarrow> False
          | Some processInfo \<Rightarrow>
              (case process processInfo of None \<Rightarrow> False | Some p \<Rightarrow> \<not> killed p))
      then Inl ''Server is already running''
      else
        (let parts = split_space command;
             call = \<lparr>executable = parts ! 0, args = drop 1 parts,
                     sp_cwd = (case workingDirectory of None \<Rightarrow> cwd os | Some d \<Rightarrow> d),
                     detached = True, stdio = [''ignore'', ''pipe'', ''pipe'']\<rparr>
         in if executable call = [] then Inl (emptyFile os)
            else
              (let serverProcess = \<lparr>pid = spawnPid os, killed = False\<rparr>;
                   processInfo = \<lparr>process = Some serverProcess, startTime = clock os,
                                  logs = [], maxLogs = 100, exitCode = Undefined,
                                  exitTime = None, error = None\<rparr>
               in Inr (\<lparr>res_pid = pid serverProcess, res_startTime = startTime processInfo\<rparr>,
                       call,
                       m\<lparr>processes := (processes m)(serverId \<mapsto> processInfo)\<rparr>))))"

subsection \<open>Events of a child\<close>

text \<open>
  The handlers registered at lines 35-62, each as the change it makes to the
  \<open>processInfo\<close> it closes over. An exit event carries the code, \<open>None\<close> for \<open>null\<close>.
\<close>

datatype proc_event = Data string string | Exit "int option" | Failure string

definition on_data :: "int \<Rightarrow> string \<Rightarrow> string \<Rightarrow> process_info \<Rightarrow> process_info" where
  "on_data t ty msg processInfo =
     (let pushed = logs processInfo @ [\<lparr>l_timestamp = t, l_type = ty, l_message = msg\<rparr>]
      in processInfo\<lparr>logs :=
           (if length pushed > maxLogs processInfo then drop 1 pushed else pushed)\<rparr>)"

definition on_exit :: "int \<Rightarrow> int option \<Rightarrow> process_info \<Rightarrow> process_info" where
  "on_exit t code processInfo =
     processInfo\<lparr>exitCode := (case code of None \<Rightarrow> Null | Some n \<Rightarrow> Code n),
                 exitTime := Some t\<rparr>"

definition on_error :: "string \<Rightarrow> process_info \<Rightarrow> process_info" where
  "on_error msg processInfo = processInfo\<lparr>error := Some msg\<rparr>"

fun handle :: "int \<Rightarrow> proc_event \<Rightarrow> process_info \<Rightarrow> process_info" where
  "handle t (Data ty msg) = on_data t ty msg"
| "handle t (Exit code) = on_exit t code"
| "handle t (Failure msg) = on_error msg"

text \<open>
  An event of the child tracked under \<open>serverId\<close>, at time \<open>t\<close>: its handler changes the
  entry of the table.
\<close>

definition deliver :: "manager \<Rightarrow> int \<times> int \<times> proc_event \<Rightarrow> manager" where
  "deliver m ev =
     (case ev of (serverId, t, pe) \<Rightarrow>
        (case processes m serverId of
           None \<Rightarrow> m
         | Some processInfo \<Rightarrow>
             m\<lparr>processes := (processes m)(serverId \<mapsto> handle t pe processInfo)\<rparr>))"

subsection \<open>Stopping\<close>

datatype signal = SIGTERM | SIGKILL

text \<open>
  What a \<open>setTimeout\<close> callback does when it fires: the forced kill of line 87, closed
  over the handle, or the start of line 117.
\<close>

datatype timer_action = ForceKill child_process | StartAgain int string "string option"

text \<open>
  The signals \<open>process.kill\<close> delivered, as (pid argument, signal), and the timers armed,
  as (delay in milliseconds, action).
\<close>

record effects =
  signals :: "(int \<times> signal) list"
  timers :: "(nat \<times> timer_action) list"

definition no_effects :: effects where
  "no_effects = \<lparr>signals = [], timers = []\<rparr>"

text \<open>
  Lines 72-101. \<open>process.kill\<close> checks its pid argument before it signals, and the
  negation of an undefined pid is not a number.
\<close>

definition stopServer :: "os_env \<Rightarrow> manager \<Rightarrow> int \<Rightarrow> string + effects" where
  "stopServer os m serverId =
     (case processes m serverId of
        None \<Rightarrow> Inl ''Server is not running''
      | Some processInfo \<Rightarrow>
          (case process processInfo of
             None \<Rightarrow> Inl ''Server is not running''
           | Some p \<Rightarrow>
               if killed p then Inl ''Server is already stopped''
               else (case pid p of
                       None \<Rightarrow> Inl (''Failed to stop server: '' @ invalidPid os)
                     | Some n \<Rightarrow>
                         (case killThrows os of
                            Some msg \<Rightarrow> Inl (''Failed to stop server: '' @ msg)
                          | None \<Rightarrow>
                              Inr \<lparr>signals = [(- n, SIGTERM)],
                                   timers = [(10000, ForceKill p)]\<rparr>))))"

text \<open>
  The callback of lines 87-95 when it fires, reading the handle as it is then: the
  signals delivered. An error thrown by \<open>process.kill\<close> is swallowed.
\<close>

definition force_kill :: "os_env \<Rightarrow> child_process \<Rightarrow> (int \<times> signal) list" where
  "force_kill os p =
     (if \<not> killed p then
        (case pid p of
           None \<Rightarrow> []
         | Some n \<Rightarrow> (case killThrows os of Some msg \<Rightarrow> [] | None \<Rightarrow> [(- n, SIGKILL)]))
      else [])"

subsection \<open>Restarting\<close>

text \<open>
  Lines 103-126, the part that runs at once: the stop, whose error is dropped, and the
  timer of 3000 ms.
\<close>

definition restart_now ::
  "os_env \<Rightarrow> manager \<Rightarrow> int \<Rightarrow> string \<Rightarrow> string option \<Rightarrow> effects" where
  "restart_now os m serverId command workingDirectory =
     (let stopped =
            (if (case processes m serverId of
                   None \<Rightarrow> False
                 | Some processInfo \<Rightarrow>
                     (case process processInfo of None \<Rightarrow> False | Some p \<Rightarrow> \<not> killed p))
             then (case stopServer os m serverId of Inl err \<Rightarrow> no_effects | Inr eff \<Rightarrow> eff)
             else no_effects)
      in stopped\<lparr>timers := timers stopped @ [(3000, StartAgain serverId command workingDirectory)]\<rparr>)"

text \<open>
  The whole of \<open>restartServer\<close>: what runs at once, then the events \<open>evs\<close> that reach the
  table while the timer runs, then the callback of line 117 under the operating system
  \<open>os'\<close> of that moment. The second component is what the promise settles with,
  \<open>Inl\<close> a rejection.
\<close>

definition restartServer ::
  "os_env \<Rightarrow> os_env \<Rightarrow> (int \<times> int \<times> proc_event) list \<Rightarrow> manager \<Rightarrow> int \<Rightarrow> string
     \<Rightarrow> string option \<Rightarrow> effects \<times> (string + (start_result \<times> spawn_call \<times> manager))" where
  "restartServer os os' evs m serverId command workingDirectory =
     (restart_now os m serverId command workingDirectory,
      startServer os' (foldl deliver m evs) serverId command workingDirectory)"

subsection \<open>Status\<close>

record status_report =
  st_status :: string
  st_uptime :: int
  st_lastExitCode :: "exit_code option"
  st_pid :: "int option"
  st_startTime :: "int option"

text \<open>Lines 128-151; a field that the returned object does not have is \<open>None\<close>.\<close>

definition getServerStatus :: "os_env \<Rightarrow> manager \<Rightarrow> int \<Rightarrow> status_report" where
  "getServerStatus os m serverId =
     (case processes m serverId of
        None \<Rightarrow>
          \<lparr>st_status = ''stopped'', st_uptime = 0, st_lastExitCode = None, st_pid = None,
           st_startTime = None\<rparr>
      | Some processInfo \<Rightarrow>
          (case process processInfo of
             None \<Rightarrow>
               \<lparr>st_status = ''stopped'', st_uptime = 0, st_lastExitCode = None, st_pid = None,
                st_startTime = None\<rparr>
           | Some p \<Rightarrow>
               if killed p \<or> exitCode processInfo \<noteq> Undefined then
                 \<lparr>st_status = ''stopped'', st_uptime = 0,
                  st_lastExitCode = Some (exitCode processInfo), st_pid = None,
                  st_startTime = None\<rparr>
               else
                 (let uptime = clock os - startTime processInfo
                  in \<lparr>st_status = ''running'', st_uptime = uptime div 1000,
                      st_lastExitCode = None, st_pid = pid p,
                      st_startTime = Some (startTime processInfo)\<rparr>)))"

section \<open>Example data\<close>

text \<open>A store with two servers and a signed-in user whose grant is \<open>true\<close> on the first only.\<close>

definition demo_user :: user where
  "demo_user = \<lparr>uid = ''u1'', email = Some ''u1@example.org''\<rparr>"

definition demo_server :: server where
  "demo_server =
     \<lparr>s_id = ''srv1'', name = ''Minecraft'', allowedUsers = Some [''u1'' \<mapsto> GBool True],
      status = \<lparr>state = ''stopped'', lastUpdated = 0, message = ''Server initialized''\<rparr>\<rparr>"

definition other_server :: server where
  "other_server =
     \<lparr>s_id = ''srv2'', name = ''Valheim'', allowedUsers = Some [''u2'' \<mapsto> GBool True, ''u1'' \<mapsto> GBool False],
      status = \<lparr>state = ''stopped'', lastUpdated = 0, message = ''Server initialized''\<rparr>\<rparr>"

definition demo_store :: store where
  "demo_store =
     \<lparr>servers = [(''srv1'', demo_server), (''srv2'', other_server)], commands = Map.empty,
      agent_status = None\<rparr>"

definition demo_env :: env where
  "demo_env =
     \<lparr>isConfigValid = True, initThrows = False, currentUser = Some demo_user,
      now = 1700000000000, pushKey = ''-NcmdKey0001'', getThrows = False, setThrows = False\<rparr>"



text \<open>
  A third server, provisioned with the number 1 in place of \<open>true\<close> for the user, and
  the store that holds it.
\<close>

definition loose_server :: server where
  "loose_server =
     \<lparr>s_id = ''srv3'', name = ''Terraria'', allowedUsers = Some [''u1'' \<mapsto> GNum 1],
      status = \<lparr>state = ''stopped'', lastUpdated = 0, message = ''Server initialized''\<rparr>\<rparr>"

definition loose_store :: store where
  "loose_store = demo_store\<lparr>servers := [(''srv1'', demo_server), (''srv3'', loose_server)]\<rparr>"

text \<open>The environment of the signed-in user with the connection to the store lost.\<close>

definition offline_env :: env where
  "offline_env = demo_env\<lparr>setThrows := True\<rparr>"

text \<open>A signed-in user with no grant at all, and a presence record 91 seconds old.\<close>

definition stranger :: user where
  "stranger = \<lparr>uid = ''u3'', email = None\<rparr>"

definition stranger_env :: env where
  "stranger_env = demo_env\<lparr>currentUser := Some stranger\<rparr>"

definition stale_presence :: presence where
  "stale_presence =
     \<lparr>p_online = True, p_lastHeartbeat = Some (1700000000000 - 91000),
      p_version = Some ''1.0.0'', p_hostname = Some ''host''\<rparr>"

text \<open>
  A supervisor that has started one server under the id 7, as \<open>startServer\<close> leaves it,
  then the same after the child's exit event with code 0, after an exit event of a child
  ended by a signal, and with the handle marked killed, which is what Node does after a
  successful \<open>subprocess.kill()\<close>.
\<close>

definition demo_os :: os_env where
  "demo_os =
     \<lparr>clock = 1700000000000, spawnPid = Some 4242, cwd = ''/srv/games'', killThrows = None,
      emptyFile = ''The argument file cannot be empty'',
      invalidPid = ''The pid argument must be of type number''\<rparr>"

definition later_os :: os_env where
  "later_os =
     \<lparr>clock = 1700000003000, spawnPid = Some 4300, cwd = ''/srv/games'', killThrows = None,
      emptyFile = ''The argument file cannot be empty'',
      invalidPid = ''The pid argument must be of type number''\<rparr>"

definition empty_manager :: manager where
  "empty_manager = \<lparr>processes = Map.empty\<rparr>"

definition started_info :: process_info where
  "started_info =
     \<lparr>process = Some \<lparr>pid = Some 4242, killed = False\<rparr>, startTime = 1700000000000, logs = [],
      maxLogs = 100, exitCode = Undefined, exitTime = None, error = None\<rparr>"

definition started_manager :: manager where
  "started_manager = \<lparr>processes = [7 \<mapsto> started_info]\<rparr>"

definition exited_manager :: manager where
  "exited_manager = deliver started_manager (7, 1700000001000, Exit (Some 0))"

definition crashed_manager :: manager where
  "crashed_manager = deliver started_manager (7, 1700000002000, Exit None)"

definition killed_manager :: manager where
  "killed_manager =
     \<lparr>processes = [7 \<mapsto> started_info\<lparr>process := Some \<lparr>pid = Some 4242, killed = True\<rparr>\<rparr>]\<rparr>"

text \<open>The executable and the arguments of the \<open>spawn\<close> call a start made, if it made one.\<close>

definition spawned :: "string + (start_result \<times> spawn_call \<times> manager) \<Rightarrow> (string \<times> string list) option" where
  "spawned r = (case r of Inl err \<Rightarrow> None | Inr (res, call, m) \<Rightarrow> Some (executable call, args call))"

text \<open>The delays of the timers a stop armed.\<close>

definition fallback_delays :: "string + effects \<Rightarrow> nat list" where
  "fallback_delays r = (case r of Inl err \<Rightarrow> [] | Inr eff \<Rightarrow> map fst (timers eff))"

text \<open>
  The delay of the forced-termination fallback as the specification words it, for
  comparison with the code: the resource's configured \<open>stopTimeout\<close>, which the resource
  record gives in seconds.
\<close>

definition spec_fallback_delay :: "nat \<Rightarrow> nat" where
  "spec_fallback_delay stopTimeout = 1000 * stopTimeout"

section \<open>Properties of the panel database module\<close>

subsection \<open>Sending a command\<close>






lemma sendCommand_issued_valid:
  "(k, c) \<in> set (fst (snd (sendCommand e st serverId action))) \<Longrightarrow> c_action c \<in> set VALID_ACTIONS"
  by (auto simp: sendCommand_def Let_def split: option.splits if_splits)

text \<open>
  C2. An action outside \<open>start\<close>, \<open>stop\<close>, \<open>restart\<close> makes \<open>sendCommand\<close> throw, with
  no \<open>set\<close> issued and the store as it was; once the database and the sign-in checks
  are passed the error is the invalid-action one. And whatever the arguments,
  every record \<open>sendCommand\<close> hands to \<open>set\<close> carries one of the three actions.
\<close>

theorem sendCommand_rejects_unknown_action:
  "(action \<notin> set VALID_ACTIONS \<longrightarrow>
      (\<exists>msg. sendCommand e st serverId action = (Inl msg, [], st))) \<and>
   (action \<notin> set VALID_ACTIONS \<and> database e \<and> currentUser e \<noteq> None \<longrightarrow>
      fst (sendCommand e st serverId action) =
        Inl (''Invalid action: '' @ action @ ''. Must be one of: start, stop, restart'')) \<and>
   (\<forall>a sid. \<forall>(k, c) \<in> set (fst (snd (sendCommand e st sid a))). c_action c \<in> set VALID_ACTIONS)"
proof -
  have a: "action \<notin> set VALID_ACTIONS \<longrightarrow>
      (\<exists>msg. sendCommand e st serverId action = (Inl msg, [], st))"
    by (simp add: sendCommand_def split: option.splits)
  have b: "action \<notin> set VALID_ACTIONS \<and> database e \<and> currentUser e \<noteq> None \<longrightarrow>
      fst (sendCommand e st serverId action) =
        Inl (''Invalid action: '' @ action @ ''. Must be one of: start, stop, restart'')"
    by (auto simp: sendCommand_def VALID_ACTIONS_def database_def split: option.splits)
  have c: "\<forall>a sid. \<forall>(k, c) \<in> set (fst (snd (sendCommand e st sid a))). c_action c \<in> set VALID_ACTIONS"
    using sendCommand_issued_valid by blast
  show ?thesis using a b c by blast
qed

theorem sendCommand_rejects_unknown_action_witness:
  "sendCommand demo_env demo_store ''srv1'' ''delete'' =
     (Inl ''Invalid action: delete. Must be one of: start, stop, restart'', [], demo_store) \<and>
   map (\<lambda>(k, c). c_action c) (fst (snd (sendCommand demo_env demo_store ''srv1'' ''stop''))) =
     [''stop'']"
proof -
  have h: "''delete'' \<notin> set VALID_ACTIONS \<and> database demo_env \<and>
      currentUser demo_env \<noteq> None"
    by (simp add: VALID_ACTIONS_def demo_env_def database_def)
  have a: "sendCommand demo_env demo_store ''srv1'' ''delete'' =
     (Inl ''Invalid action: delete. Must be one of: start, stop, restart'', [], demo_store)"
    using h sendCommand_rejects_unknown_action [of "''delete''" demo_env demo_store "''srv1''"]
    by auto
  have i: "fst (snd (sendCommand demo_env demo_store ''srv1'' ''stop'')) =
      [(''-NcmdKey0001'',
        \<lparr>c_id = ''-NcmdKey0001'', c_serverId = ''srv1'', c_action = ''stop'',
         c_requestedBy = ''u1'', c_requestedByEmail = Some ''u1@example.org'',
         c_requestedAt = 1700000000000, c_status = ''pending''\<rparr>)]"
    by (simp add: sendCommand_def checkServerAccess_def database_def VALID_ACTIONS_def
        demo_env_def demo_store_def demo_user_def demo_server_def Let_def)
  have "\<forall>(k, c) \<in> set (fst (snd (sendCommand demo_env demo_store ''srv1'' ''stop''))).
      c_action c \<in> set VALID_ACTIONS"
    using sendCommand_rejects_unknown_action [of "''delete''" demo_env demo_store "''srv1''"]
    by blast
  then have b: "map (\<lambda>(k, c). c_action c)
      (fst (snd (sendCommand demo_env demo_store ''srv1'' ''stop''))) = [''stop'']"
    unfolding i by simp
  show ?thesis using a b by (rule conjI)
qed

text \<open>In whatever way a write is rejected, the error is the one of line 227.\<close>

lemma sendCommand_rejected_write:
  "fst (snd (sendCommand e st serverId action)) \<noteq> [] \<Longrightarrow>
     isl (fst (sendCommand e st serverId action)) \<Longrightarrow>
     fst (sendCommand e st serverId action) = Inl ''Failed to send command. Please try again.''"
  by (auto simp: sendCommand_def Let_def split: option.splits if_splits)

text \<open>
  C3. With the earlier checks passed, a caller whose uid has no \<open>true\<close> entry in the
  server's \<open>allowedUsers\<close> (no such server, no such child, no entry, or another value)
  gets the error \<open>You do not have access to this server\<close>; no \<open>set\<close> is issued and the
  store is as it was. And the error differs from the one of a rejected write: every call
  of \<open>sendCommand\<close>, with whatever arguments, that issued its \<open>set\<close> and threw, threw
  \<open>Failed to send command. Please try again.\<close>, which is another error than this one.
\<close>

theorem sendCommand_denies_non_member:
  assumes "database e" and "currentUser e = Some usr"
    and "action \<in> set VALID_ACTIONS"
    and "\<forall>s au. map_of (servers st) serverId = Some s \<and> allowedUsers s = Some au
           \<longrightarrow> au (uid usr) \<noteq> Some (GBool True)"
  shows "sendCommand e st serverId action =
           (Inl ''You do not have access to this server'', [], st) \<and>
         (\<forall>e' st' serverId' action'.
            fst (snd (sendCommand e' st' serverId' action')) \<noteq> [] \<and>
            isl (fst (sendCommand e' st' serverId' action')) \<longrightarrow>
            fst (sendCommand e' st' serverId' action') =
              Inl ''Failed to send command. Please try again.'' \<and>
            fst (sendCommand e' st' serverId' action') \<noteq>
              fst (sendCommand e st serverId action))"
proof -
  have "\<not> checkServerAccess e st serverId"
    using assms by (auto simp: checkServerAccess_def split: option.splits)
  then have denied: "sendCommand e st serverId action =
      (Inl ''You do not have access to this server'', [], st)"
    using assms by (simp add: sendCommand_def database_def)
  have other: "\<forall>e' st' serverId' action'.
      fst (snd (sendCommand e' st' serverId' action')) \<noteq> [] \<and>
      isl (fst (sendCommand e' st' serverId' action')) \<longrightarrow>
      fst (sendCommand e' st' serverId' action') =
        Inl ''Failed to send command. Please try again.'' \<and>
      fst (sendCommand e' st' serverId' action') \<noteq> fst (sendCommand e st serverId action)"
  proof (intro allI impI)
    fix e' st' serverId' action'
    assume w: "fst (snd (sendCommand e' st' serverId' action')) \<noteq> [] \<and>
      isl (fst (sendCommand e' st' serverId' action'))"
    have f: "fst (sendCommand e' st' serverId' action') =
        Inl ''Failed to send command. Please try again.''"
      using w sendCommand_rejected_write by blast
    show "fst (sendCommand e' st' serverId' action') =
        Inl ''Failed to send command. Please try again.'' \<and>
      fst (sendCommand e' st' serverId' action') \<noteq> fst (sendCommand e st serverId action)"
      unfolding f denied by simp
  qed
  show ?thesis using denied other by (rule conjI)
qed

theorem sendCommand_denies_non_member_witness:
  "sendCommand stranger_env demo_store ''srv1'' ''start'' =
     (Inl ''You do not have access to this server'', [], demo_store) \<and>
   fst (sendCommand offline_env demo_store ''srv1'' ''start'') =
     Inl ''Failed to send command. Please try again.'' \<and>
   fst (sendCommand offline_env demo_store ''srv1'' ''start'') \<noteq>
     fst (sendCommand stranger_env demo_store ''srv1'' ''start'')"
proof -
  have h: "\<forall>s au. map_of (servers demo_store) ''srv1'' = Some s \<and> allowedUsers s = Some au
           \<longrightarrow> au (uid stranger) \<noteq> Some (GBool True)"
    by (simp add: demo_store_def demo_server_def stranger_def)
  have v: "''start'' \<in> set VALID_ACTIONS" by (simp add: VALID_ACTIONS_def)
  have e: "database stranger_env" "currentUser stranger_env = Some stranger"
    by (simp_all add: stranger_env_def demo_env_def database_def)
  have w: "fst (snd (sendCommand offline_env demo_store ''srv1'' ''start'')) \<noteq> [] \<and>
      isl (fst (sendCommand offline_env demo_store ''srv1'' ''start''))"
    by (simp add: sendCommand_def checkServerAccess_def database_def VALID_ACTIONS_def
        set_rejected_def offline_env_def demo_env_def demo_store_def demo_user_def
        demo_server_def Let_def)
  show ?thesis
    using w sendCommand_denies_non_member [OF e v h] by blast
qed

subsection \<open>Listing the servers of a user\<close>

lemma foldl_visit:
  "foldl (visit u) acc xs =
     acc @ map (\<lambda>(k, s). s\<lparr>s_id := k\<rparr>) (filter (\<lambda>(k, s). listed s u) xs)"
  by (induction xs arbitrary: acc) (auto simp: visit_def listed_def Let_def split: prod.splits)

text \<open>
  What \<open>fetchUserServers\<close> returns with the store reachable and a user signed in: the
  servers that pass the test of line 84, in the order of the store, each under its key.
\<close>

lemma fetchUserServers_lists_truthy:
  assumes "database e" and "currentUser e = Some usr" and "\<not> getThrows e"
  shows "fetchUserServers e st =
           Inr (map (\<lambda>(k, s). s\<lparr>s_id := k\<rparr>)
                  (filter (\<lambda>(k, s). listed s (uid usr)) (servers st)))"
  using assms by (auto simp: fetchUserServers_def foldl_visit database_def)

text \<open>
  C4. \<open>fetchUserServers\<close> does not return exactly the servers with a \<open>true\<close> grant:
  whenever the user's entry in \<open>allowedUsers\<close> of a stored server is truthy without
  being \<open>true\<close> (a non-zero number, a non-empty string, an object), the server is in the
  result, because line 84 tests the entry for truthiness, while \<open>checkServerAccess\<close>,
  which tests it with \<open>=== true\<close>, refuses the same user on the same server.
\<close>

theorem fetchUserServers_lists_untrue_grant:
  assumes "database e" and "currentUser e = Some usr" and "\<not> getThrows e"
    and "map_of (servers st) k = Some s" and "allowedUsers s = Some au"
    and "au (uid usr) = Some g" and "truthy g" and "g \<noteq> GBool True"
  shows "\<exists>rs. fetchUserServers e st = Inr rs \<and> s\<lparr>s_id := k\<rparr> \<in> set rs \<and>
           \<not> checkServerAccess e st k"
proof -
  let ?rs = "map (\<lambda>(k, s). s\<lparr>s_id := k\<rparr>)
               (filter (\<lambda>(k, s). listed s (uid usr)) (servers st))"
  have res: "fetchUserServers e st = Inr ?rs"
    using assms(1-3) by (rule fetchUserServers_lists_truthy)
  have stored: "(k, s) \<in> set (servers st)"
    using assms(4) by (rule map_of_SomeD)
  have "listed s (uid usr)"
    using assms(5-7) by (simp add: listed_def)
  then have "(k, s) \<in> set (filter (\<lambda>(k, s). listed s (uid usr)) (servers st))"
    using stored by simp
  then have mem: "s\<lparr>s_id := k\<rparr> \<in> set ?rs" by force
  have denied: "\<not> checkServerAccess e st k"
    using assms(2,4-6,8) by (simp add: checkServerAccess_def)
  show ?thesis using res mem denied by blast
qed

theorem fetchUserServers_lists_untrue_grant_witness:
  "fetchUserServers demo_env loose_store = Inr [demo_server, loose_server] \<and>
   allowedUsers loose_server = Some [''u1'' \<mapsto> GNum 1] \<and>
   loose_server\<lparr>s_id := ''srv3''\<rparr> \<in> set [demo_server, loose_server] \<and>
   \<not> checkServerAccess demo_env loose_store ''srv3''"
proof -
  have a: "fetchUserServers demo_env loose_store = Inr [demo_server, loose_server]"
    by (simp add: fetchUserServers_def database_def visit_def listed_def Let_def
        demo_env_def loose_store_def demo_store_def demo_user_def demo_server_def
        loose_server_def)
  have b: "allowedUsers loose_server = Some [''u1'' \<mapsto> GNum 1]"
    by (simp add: loose_server_def)
  have e: "database demo_env" "currentUser demo_env = Some demo_user" "\<not> getThrows demo_env"
    by (simp_all add: demo_env_def database_def)
  have k: "map_of (servers loose_store) ''srv3'' = Some loose_server"
    by (simp add: loose_store_def demo_store_def)
  have g: "[''u1'' \<mapsto> GNum 1] (uid demo_user) = Some (GNum 1)"
    by (simp add: demo_user_def)
  have t: "truthy (GNum 1)" by simp
  have n: "GNum 1 \<noteq> GBool True" by simp
  have "\<exists>rs. fetchUserServers demo_env loose_store = Inr rs \<and>
      loose_server\<lparr>s_id := ''srv3''\<rparr> \<in> set rs \<and>
      \<not> checkServerAccess demo_env loose_store ''srv3''"
    using fetchUserServers_lists_untrue_grant [OF e k b g t n] .
  then have c: "loose_server\<lparr>s_id := ''srv3''\<rparr> \<in> set [demo_server, loose_server] \<and>
      \<not> checkServerAccess demo_env loose_store ''srv3''"
    unfolding a by simp
  show ?thesis using a b c by blast
qed

subsection \<open>Agent status\<close>

text \<open>
  C5. A presence record whose heartbeat (0 when absent) lies more than 90000 ms before
  the clock is reported with \<open>online = false\<close>, whatever its stored \<open>online\<close> flag says.
\<close>

theorem stale_presence_reported_offline:
  "90000 < now e - (case p_lastHeartbeat st of None \<Rightarrow> 0 | Some h \<Rightarrow> h) \<Longrightarrow>
     \<not> r_online (subscribeToAgentStatus e (Snapshot (Some st))) \<and>
     r_message (subscribeToAgentStatus e (Snapshot (Some st))) \<noteq> ''Agent online''"
  by (simp add: subscribeToAgentStatus_def offline_report_def Let_def)

theorem stale_presence_reported_offline_witness:
  "p_online stale_presence \<and>
   now demo_env - 91000 = (case p_lastHeartbeat stale_presence of None \<Rightarrow> 0 | Some h \<Rightarrow> h) \<and>
   \<not> r_online (subscribeToAgentStatus demo_env (Snapshot (Some stale_presence)))"
proof -
  have h: "90000 < now demo_env -
      (case p_lastHeartbeat stale_presence of None \<Rightarrow> 0 | Some h \<Rightarrow> h)"
    by (simp add: demo_env_def stale_presence_def)
  show ?thesis
    using stale_presence_reported_offline [OF h]
    by (simp add: demo_env_def stale_presence_def)
qed


section \<open>Properties of the process supervisor\<close>

subsection \<open>Splitting the command\<close>

lemma split_space_not_Nil: "split_space s \<noteq> []"
  by (induction s) (auto split: list.splits)

lemma split_space_no_space: "p \<in> set (split_space s) \<Longrightarrow> CHR '' '' \<notin> set p"
  by (induction s arbitrary: p) (auto split: list.splits if_splits)

lemma join_Cons: "ps \<noteq> [] \<Longrightarrow> join sep (p # ps) = p @ sep @ join sep ps"
  by (cases ps) auto

lemma join_split_space: "join '' '' (split_space s) = s"
proof (induction s)
  case Nil
  show ?case by simp
next
  case (Cons c cs)
  show ?case
  proof (cases "c = CHR '' ''")
    case True
    then show ?thesis using Cons split_space_not_Nil [of cs] by (simp add: join_Cons)
  next
    case False
    obtain p ps where sp: "split_space cs = p # ps"
      using split_space_not_Nil [of cs] by (cases "split_space cs") auto
    show ?thesis
    proof (cases ps)
      case Nil
      then show ?thesis using False sp Cons by simp
    next
      case (Cons q qs)
      then show ?thesis using False sp Cons.IH by simp
    qed
  qed
qed

lemma split_space_plain: "CHR '' '' \<notin> set p \<Longrightarrow> split_space p = [p]"
  by (induction p) auto

lemma split_space_append:
  "CHR '' '' \<notin> set p \<Longrightarrow> split_space (p @ CHR '' '' # s) = p # split_space s"
  by (induction p) auto

lemma split_space_join:
  "ps \<noteq> [] \<Longrightarrow> \<forall>p \<in> set ps. CHR '' '' \<notin> set p \<Longrightarrow> split_space (join '' '' ps) = ps"
proof (induction ps)
  case Nil
  then show ?case by simp
next
  case (Cons p ps)
  show ?case
  proof (cases ps)
    case Nil
    then show ?thesis using Cons.prems by (simp add: split_space_plain)
  next
    case (Cons q qs)
    then have "split_space (join '' '' ps) = ps" using Cons.IH Cons.prems by simp
    then show ?thesis using Cons Cons.prems by (simp add: split_space_append)
  qed
qed

subsection \<open>Starting\<close>

lemma parts_split: "split_space s ! 0 # drop (Suc 0) (split_space s) = split_space s"
  using split_space_not_Nil [of s] by (cases "split_space s") auto

lemma startServer_call:
  "startServer os m serverId command wd = Inr (res, call, m') \<Longrightarrow>
     executable call # args call = split_space command"
  by (auto simp: startServer_def Let_def parts_split split: if_splits)

text \<open>
  C7, as amended. \<open>startServer\<close> hands \<open>spawn\<close> an executable and a list of arguments,
  never a command line for a shell, but it derives them from the single configured
  command string by cutting it at every space: the executable followed by the arguments
  is \<open>command.split(' ')\<close>, no piece contains a space, and joining the pieces with spaces
  gives the command back. So a configured executable and argument list reach \<open>spawn\<close>
  intact exactly when none of them contains a space.
\<close>

theorem startServer_splits_command_at_spaces:
  assumes "startServer os m serverId command workingDirectory = Inr (res, call, m')"
  shows "executable call # args call = split_space command \<and>
         (\<forall>a \<in> set (executable call # args call). CHR '' '' \<notin> set a) \<and>
         join '' '' (executable call # args call) = command \<and>
         (\<forall>exe rest. command = join '' '' (exe # rest) \<and> (\<forall>a \<in> set (exe # rest). CHR '' '' \<notin> set a)
            \<longrightarrow> executable call = exe \<and> args call = rest)"
proof -
  have eq: "executable call # args call = split_space command"
    using assms by (rule startServer_call)
  have nosp: "\<forall>a \<in> set (executable call # args call). CHR '' '' \<notin> set a"
    unfolding eq using split_space_no_space by blast
  have rejoin: "join '' '' (executable call # args call) = command"
    unfolding eq by (rule join_split_space)
  have intact: "\<forall>exe rest. command = join '' '' (exe # rest) \<and> (\<forall>a \<in> set (exe # rest). CHR '' '' \<notin> set a)
            \<longrightarrow> executable call = exe \<and> args call = rest"
  proof (intro allI impI)
    fix exe rest
    assume h: "command = join '' '' (exe # rest) \<and> (\<forall>a \<in> set (exe # rest). CHR '' '' \<notin> set a)"
    then have "split_space command = exe # rest"
      using split_space_join [of "exe # rest"] by simp
    then show "executable call = exe \<and> args call = rest" using eq by simp
  qed
  show ?thesis using eq nosp rejoin intact by blast
qed

theorem startServer_splits_command_at_spaces_witness:
  "startServer demo_os empty_manager 7 ''java -jar server.jar'' None =
     Inr (\<lparr>res_pid = Some 4242, res_startTime = 1700000000000\<rparr>,
          \<lparr>executable = ''java'', args = [''-jar'', ''server.jar''], sp_cwd = ''/srv/games'',
           detached = True, stdio = [''ignore'', ''pipe'', ''pipe'']\<rparr>,
          started_manager) \<and>
   split_space ''java -jar server.jar'' = [''java'', ''-jar'', ''server.jar'']"
proof -
  have h: "startServer demo_os empty_manager 7 ''java -jar server.jar'' None =
     Inr (\<lparr>res_pid = Some 4242, res_startTime = 1700000000000\<rparr>,
          \<lparr>executable = ''java'', args = [''-jar'', ''server.jar''], sp_cwd = ''/srv/games'',
           detached = True, stdio = [''ignore'', ''pipe'', ''pipe'']\<rparr>,
          started_manager)"
    by (simp add: startServer_def demo_os_def empty_manager_def started_manager_def
        started_info_def Let_def)
  show ?thesis
    using h startServer_splits_command_at_spaces [OF h] by simp
qed

text \<open>
  C7, as stated, fails: for the executable \<open>java\<close> with the two arguments \<open>-jar\<close> and
  \<open>my server.jar\<close>, \<open>spawn\<close> receives three arguments.
\<close>

theorem startServer_breaks_argument_with_space:
  "spawned (startServer demo_os empty_manager 7
              (join '' '' [''java'', ''-jar'', ''my server.jar'']) None) =
     Some (''java'', [''-jar'', ''my'', ''server.jar''])"
  by (simp add: spawned_def startServer_def demo_os_def empty_manager_def Let_def)

text \<open>
  C6. After the child started under the id 7 has exited by itself with code 0, no live
  handle exists, and \<open>getServerStatus\<close> says so, yet \<open>startServer\<close> throws
  \<open>Server is already running\<close>: its guard looks at \<open>killed\<close> only, which an exit does not
  set.
\<close>

theorem startServer_refused_after_exit:
  "exited_manager =
     \<lparr>processes = [7 \<mapsto> started_info\<lparr>exitCode := Code 0, exitTime := Some 1700000001000\<rparr>]\<rparr> \<and>
   st_status (getServerStatus later_os exited_manager 7) = ''stopped'' \<and>
   startServer later_os exited_manager 7 ''java -jar server.jar'' None =
     Inl ''Server is already running''"
  by (simp add: exited_manager_def deliver_def started_manager_def started_info_def
      on_exit_def getServerStatus_def startServer_def)

text \<open>
  C10. Whenever the process tracked under an id has a recorded exit and its handle is not
  marked killed, \<open>getServerStatus\<close> reports \<open>stopped\<close> with uptime 0 and the recorded
  exit code, while \<open>startServer\<close> for that id throws \<open>Server is already running\<close>.
\<close>

theorem exited_process_reads_stopped_but_blocks_start:
  assumes "processes m serverId = Some processInfo" and "process processInfo = Some p"
    and "\<not> killed p" and "exitCode processInfo \<noteq> Undefined"
  shows "getServerStatus os m serverId =
           \<lparr>st_status = ''stopped'', st_uptime = 0,
            st_lastExitCode = Some (exitCode processInfo), st_pid = None,
            st_startTime = None\<rparr> \<and>
         startServer os' m serverId command workingDirectory = Inl ''Server is already running''"
  using assms by (simp add: getServerStatus_def startServer_def)

theorem exited_process_reads_stopped_but_blocks_start_witness:
  "getServerStatus later_os crashed_manager 7 =
     \<lparr>st_status = ''stopped'', st_uptime = 0, st_lastExitCode = Some Null, st_pid = None,
      st_startTime = None\<rparr> \<and>
   startServer later_os crashed_manager 7 ''java -jar server.jar'' None =
     Inl ''Server is already running''"
proof -
  let ?info = "started_info\<lparr>exitCode := Null, exitTime := Some 1700000002000\<rparr>"
  have a: "processes crashed_manager 7 = Some ?info"
    by (simp add: crashed_manager_def deliver_def started_manager_def on_exit_def)
  have b: "process ?info = Some \<lparr>pid = Some 4242, killed = False\<rparr>"
    by (simp add: started_info_def)
  have c: "\<not> killed \<lparr>pid = Some 4242, killed = False\<rparr>" by simp
  have d: "exitCode ?info \<noteq> Undefined" by simp
  show ?thesis
    using exited_process_reads_stopped_but_blocks_start [OF a b c d] by simp
qed

subsection \<open>Stopping\<close>

text \<open>
  C8, as amended. \<open>stopServer\<close> throws \<open>Server is not running\<close> when nothing is tracked
  under the id and \<open>Server is already stopped\<close> when the tracked handle is marked killed.
  For a tracked process, one with a pid, that is not marked killed and has no recorded
  exit, with the signal delivered, it sends \<open>SIGTERM\<close> to the process group (the negated
  pid), arms one timer of the fixed delay 10000 ms and returns at once; when the timer
  fires with the handle still not marked killed, \<open>SIGKILL\<close> goes to the group.
\<close>

theorem stopServer_graceful_then_fixed_fallback:
  "(processes m serverId = None \<longrightarrow> stopServer os m serverId = Inl ''Server is not running'') \<and>
   (processes m serverId = Some processInfo \<and> process processInfo = Some p \<and> killed p \<longrightarrow>
      stopServer os m serverId = Inl ''Server is already stopped'') \<and>
   (processes m serverId = Some processInfo \<and> process processInfo = Some p \<and> \<not> killed p \<and>
    pid p = Some n \<and> exitCode processInfo = Undefined \<and> killThrows os = None \<longrightarrow>
      stopServer os m serverId =
        Inr \<lparr>signals = [(- n, SIGTERM)], timers = [(10000, ForceKill p)]\<rparr> \<and>
      (killThrows os' = None \<longrightarrow> force_kill os' p = [(- n, SIGKILL)]))"
  by (simp add: stopServer_def force_kill_def)

theorem stopServer_graceful_then_fixed_fallback_witness:
  "stopServer demo_os started_manager 7 =
     Inr \<lparr>signals = [(- 4242, SIGTERM)],
          timers = [(10000, ForceKill \<lparr>pid = Some 4242, killed = False\<rparr>)]\<rparr> \<and>
   force_kill later_os \<lparr>pid = Some 4242, killed = False\<rparr> = [(- 4242, SIGKILL)] \<and>
   stopServer demo_os empty_manager 7 = Inl ''Server is not running'' \<and>
   stopServer demo_os killed_manager 7 = Inl ''Server is already stopped''"
proof -
  have h: "processes started_manager 7 = Some started_info \<and>
      process started_info = Some \<lparr>pid = Some 4242, killed = False\<rparr> \<and>
      \<not> killed \<lparr>pid = Some 4242, killed = False\<rparr> \<and>
      pid \<lparr>pid = Some 4242, killed = False\<rparr> = Some 4242 \<and>
      exitCode started_info = Undefined \<and> killThrows demo_os = None"
    by (simp add: started_manager_def started_info_def demo_os_def)
  have k: "killThrows later_os = None" by (simp add: later_os_def)
  have a: "stopServer demo_os started_manager 7 =
     Inr \<lparr>signals = [(- 4242, SIGTERM)],
          timers = [(10000, ForceKill \<lparr>pid = Some 4242, killed = False\<rparr>)]\<rparr> \<and>
   force_kill later_os \<lparr>pid = Some 4242, killed = False\<rparr> = [(- 4242, SIGKILL)]"
    using h k stopServer_graceful_then_fixed_fallback
      [of started_manager 7 demo_os started_info "\<lparr>pid = Some 4242, killed = False\<rparr>"
          4242 later_os]
    by simp
  have n: "processes empty_manager 7 = None" by (simp add: empty_manager_def)
  have b: "stopServer demo_os empty_manager 7 = Inl ''Server is not running''"
    using n stopServer_graceful_then_fixed_fallback [of empty_manager 7 demo_os] by blast
  have d: "processes killed_manager 7 =
        Some (started_info\<lparr>process := Some \<lparr>pid = Some 4242, killed = True\<rparr>\<rparr>) \<and>
      process (started_info\<lparr>process := Some \<lparr>pid = Some 4242, killed = True\<rparr>\<rparr>) =
        Some \<lparr>pid = Some 4242, killed = True\<rparr> \<and>
      killed \<lparr>pid = Some 4242, killed = True\<rparr>"
    by (simp add: killed_manager_def)
  have c: "stopServer demo_os killed_manager 7 = Inl ''Server is already stopped''"
    using d stopServer_graceful_then_fixed_fallback
      [of killed_manager 7 demo_os
          "started_info\<lparr>process := Some \<lparr>pid = Some 4242, killed = True\<rparr>\<rparr>"
          "\<lparr>pid = Some 4242, killed = True\<rparr>"]
    by blast
  show ?thesis using a b c by blast
qed

text \<open>
  The handle of a child that could not be started has no pid: stopping it fails in the
  argument check of \<open>process.kill\<close>, and the forced kill does nothing.
\<close>

lemma stopServer_without_pid:
  "processes m serverId = Some processInfo \<Longrightarrow> process processInfo = Some p \<Longrightarrow>
     \<not> killed p \<Longrightarrow> pid p = None \<Longrightarrow>
     stopServer os m serverId = Inl (''Failed to stop server: '' @ invalidPid os) \<and>
     force_kill os' p = []"
  by (simp add: stopServer_def force_kill_def)

text \<open>
  C8, as stated, fails: for a resource configured with \<open>stopTimeout\<close> 30, the fallback
  armed is not the one of 30 seconds. \<open>stopServer\<close> receives the id alone, and the delay is
  the literal 10000.
\<close>

theorem stopServer_fallback_not_stopTimeout:
  "fallback_delays (stopServer demo_os started_manager 7) \<noteq> [spec_fallback_delay 30]"
  by (simp add: fallback_delays_def stopServer_def demo_os_def started_manager_def
      started_info_def spec_fallback_delay_def)

subsection \<open>Restarting\<close>

text \<open>No event of a child changes the handle its table entry holds.\<close>

lemma handle_process: "process (handle t pe processInfo) = process processInfo"
  by (cases pe) (simp_all add: on_data_def on_exit_def on_error_def Let_def)

lemma deliver_process:
  "map_option process (processes (deliver m ev) serverId) =
     map_option process (processes m serverId)"
  by (cases ev) (auto simp: deliver_def handle_process split: option.splits)

lemma foldl_deliver_process:
  "map_option process (processes (foldl deliver m evs) serverId) =
     map_option process (processes m serverId)"
  by (induction evs arbitrary: m) (simp_all add: deliver_process)

text \<open>\<open>startServer\<close> as a function of the handle tracked under the id.\<close>

lemma startServer_guard:
  "startServer os m serverId command wd =
     (if (case map_option process (processes m serverId) of
            None \<Rightarrow> False | Some None \<Rightarrow> False | Some (Some p) \<Rightarrow> \<not> killed p)
      then Inl ''Server is already running''
      else if split_space command ! 0 = [] then Inl (emptyFile os)
      else
        Inr (\<lparr>res_pid = spawnPid os, res_startTime = clock os\<rparr>,
             \<lparr>executable = split_space command ! 0, args = drop 1 (split_space command),
              sp_cwd = (case wd of None \<Rightarrow> cwd os | Some d \<Rightarrow> d),
              detached = True, stdio = [''ignore'', ''pipe'', ''pipe'']\<rparr>,
             m\<lparr>processes := (processes m)(serverId \<mapsto>
                 \<lparr>process = Some \<lparr>pid = spawnPid os, killed = False\<rparr>, startTime = clock os,
                  logs = [], maxLogs = 100, exitCode = Undefined, exitTime = None,
                  error = None\<rparr>)\<rparr>))"
  by (simp add: startServer_def Let_def split: option.splits)

text \<open>
  With a handle not marked killed under the id, the start of a restart is refused,
  whatever the child did while the timer ran.
\<close>

lemma restartServer_unkilled_rejected:
  assumes "processes m serverId = Some processInfo" and "process processInfo = Some p"
    and "\<not> killed p"
  shows "snd (restartServer os os' evs m serverId command wd) = Inl ''Server is already running''"
proof -
  have g: "case map_option process (processes (foldl deliver m evs) serverId) of
             None \<Rightarrow> False | Some None \<Rightarrow> False | Some (Some p) \<Rightarrow> \<not> killed p"
    unfolding foldl_deliver_process using assms by simp
  show ?thesis
    unfolding restartServer_def snd_conv startServer_guard by (rule if_P) (rule g)
qed







end
